theory Spec2Isabelle
  imports
    Complex_Main
    "HOL-Library.Monad_Syntax"
    "HOL-Library.AList"
    "HOL-Library.Char_ord"
    "HOL-Library.List_Lexorder"
    "HOL-Library.Multiset"
begin

section \<open>Floating-point cells\<close>

text \<open>
  The notebook computes on pandas columns of dtype float64. A cell is modelled as an exact
  real number or one of the three IEEE special values. Arithmetic on finite cells is exact
  (rounding, overflow to infinity and the sign of zero are not modelled); what is modelled
  is where the special values come from and how they propagate: numpy division by zero
  gives an infinity or NaN and raises nothing, and every operation on NaN gives NaN.
\<close>

datatype f64 = Fin real | PInf | NInf | NaN

fun fneg :: "f64 \<Rightarrow> f64" where
  "fneg (Fin a) = Fin (- a)"
| "fneg PInf = NInf"
| "fneg NInf = PInf"
| "fneg NaN = NaN"

fun fadd :: "f64 \<Rightarrow> f64 \<Rightarrow> f64" where
  "fadd NaN _ = NaN"
| "fadd _ NaN = NaN"
| "fadd (Fin a) (Fin b) = Fin (a + b)"
| "fadd PInf NInf = NaN"
| "fadd NInf PInf = NaN"
| "fadd PInf _ = PInf"
| "fadd _ PInf = PInf"
| "fadd NInf _ = NInf"
| "fadd _ NInf = NInf"

definition fsub :: "f64 \<Rightarrow> f64 \<Rightarrow> f64" where
  "fsub a b = fadd a (fneg b)"

definition inf_of_sign :: "real \<Rightarrow> f64" where
  "inf_of_sign s = (if s = 0 then NaN else if 0 < s then PInf else NInf)"

fun fmul :: "f64 \<Rightarrow> f64 \<Rightarrow> f64" where
  "fmul NaN _ = NaN"
| "fmul _ NaN = NaN"
| "fmul (Fin a) (Fin b) = Fin (a * b)"
| "fmul (Fin a) PInf = inf_of_sign a"
| "fmul (Fin a) NInf = inf_of_sign (- a)"
| "fmul PInf (Fin b) = inf_of_sign b"
| "fmul NInf (Fin b) = inf_of_sign (- b)"
| "fmul PInf PInf = PInf"
| "fmul NInf NInf = PInf"
| "fmul PInf NInf = NInf"
| "fmul NInf PInf = NInf"

fun fdiv :: "f64 \<Rightarrow> f64 \<Rightarrow> f64" where
  "fdiv NaN _ = NaN"
| "fdiv _ NaN = NaN"
| "fdiv (Fin a) (Fin b) = (if b = 0 then inf_of_sign a else Fin (a / b))"
| "fdiv (Fin a) PInf = Fin 0"
| "fdiv (Fin a) NInf = Fin 0"
| "fdiv PInf (Fin b) = (if 0 \<le> b then PInf else NInf)"
| "fdiv NInf (Fin b) = (if 0 \<le> b then NInf else PInf)"
| "fdiv _ _ = NaN"

text \<open>The IEEE comparisons: every comparison with NaN is false.\<close>

fun flt :: "f64 \<Rightarrow> f64 \<Rightarrow> bool" where
  "flt NaN _ = False"
| "flt _ NaN = False"
| "flt (Fin a) (Fin b) = (a < b)"
| "flt NInf NInf = False"
| "flt NInf _ = True"
| "flt _ NInf = False"
| "flt PInf _ = False"
| "flt _ PInf = True"

definition fle :: "f64 \<Rightarrow> f64 \<Rightarrow> bool" where
  "fle a b = (flt a b \<or> (a = b \<and> a \<noteq> NaN))"

definition is_fin :: "f64 \<Rightarrow> bool" where
  "is_fin a = (case a of Fin _ \<Rightarrow> True | _ \<Rightarrow> False)"

section \<open>Series\<close>

text \<open>
  A pandas Series of floats is a list of cells. \<open>Series.min()\<close> and \<open>Series.max()\<close> skip
  NaN (\<open>skipna=True\<close>) and give NaN when nothing is left. Arithmetic between a series and
  a scalar, and between two series over the same index, is element by element.
\<close>

type_synonym series = "f64 list"

definition dropna :: "series \<Rightarrow> series" where
  "dropna s = filter (\<lambda>v. v \<noteq> NaN) s"

definition series_min :: "series \<Rightarrow> f64" where
  "series_min s =
     (case dropna s of [] \<Rightarrow> NaN
      | v # vs \<Rightarrow> foldl (\<lambda>m a. if flt a m then a else m) v vs)"

definition series_max :: "series \<Rightarrow> f64" where
  "series_max s =
     (case dropna s of [] \<Rightarrow> NaN
      | v # vs \<Rightarrow> foldl (\<lambda>m a. if flt m a then a else m) v vs)"

definition sub_scalar :: "series \<Rightarrow> f64 \<Rightarrow> series" where
  "sub_scalar s c = map (\<lambda>v. fsub v c) s"

definition div_scalar :: "series \<Rightarrow> f64 \<Rightarrow> series" where
  "div_scalar s c = map (\<lambda>v. fdiv v c) s"

definition scalar_mul :: "f64 \<Rightarrow> series \<Rightarrow> series" where
  "scalar_mul c s = map (fmul c) s"

definition series_add :: "series \<Rightarrow> series \<Rightarrow> series" where
  "series_add s t = map2 fadd s t"

definition series_sub :: "series \<Rightarrow> series \<Rightarrow> series" where
  "series_sub s t = map2 fsub s t"

definition series_mul :: "series \<Rightarrow> series \<Rightarrow> series" where
  "series_mul s t = map2 fmul s t"

definition series_div :: "series \<Rightarrow> series \<Rightarrow> series" where
  "series_div s t = map2 fdiv s t"

section \<open>Data frames and the object store\<close>

text \<open>
  A DataFrame of the notebook is its \<open>product_name\<close> column together with its float columns,
  in column order. Reading a column that is not there raises KeyError, and assigning a
  column whose length is not the frame's raises ValueError: both are the value \<open>None\<close>.
  Every selection \<open>df[[...]]\<close> of the notebook names \<open>product_name\<close>, so \<open>select\<close> takes the
  float columns to keep and keeps \<open>product_name\<close>.
\<close>

record frame =
  product_name :: "string list"
  columns :: "(string \<times> series) list"

definition nrows :: "frame \<Rightarrow> nat" where
  "nrows df = length (product_name df)"

definition getitem :: "frame \<Rightarrow> string \<Rightarrow> series option" where
  "getitem df c = map_of (columns df) c"

definition setitem :: "frame \<Rightarrow> string \<Rightarrow> series \<Rightarrow> frame option" where
  "setitem df c v =
     (if length v = nrows df then Some (df\<lparr>columns := AList.update c v (columns df)\<rparr>)
      else None)"

fun select_columns :: "frame \<Rightarrow> string list \<Rightarrow> (string \<times> series) list option" where
  "select_columns df [] = Some []"
| "select_columns df (c # cs) =
     do { v \<leftarrow> getitem df c; rest \<leftarrow> select_columns df cs; Some ((c, v) # rest) }"

definition select :: "frame \<Rightarrow> string list \<Rightarrow> frame option" where
  "select df cs =
     do { cols \<leftarrow> select_columns df cs;
          Some \<lparr>product_name = product_name df, columns = cols\<rparr> }"

definition take_rows :: "frame \<Rightarrow> nat list \<Rightarrow> frame" where
  "take_rows df idx =
     \<lparr>product_name = map (\<lambda>i. product_name df ! i) idx,
      columns = map (\<lambda>cv. (fst cv, map (\<lambda>i. snd cv ! i) idx)) (columns df)\<rparr>"

text \<open>
  \<open>sort_values(by=c, ascending=False)\<close> orders the rows by pandas' \<open>nargsort\<close>: the rows
  whose key is NaN are set aside and come last, in their own order; the others are
  reversed, argsorted in ascending order and reversed again. The notebook passes no
  \<open>kind\<close>, so the argsort is numpy's default, which is not stable: it orders the keys, and
  where two keys are equal, which of the two comes first is left to the implementation.
  That choice is the parameter \<open>ties\<close> of the model: \<open>ties key j i\<close> says that of the
  positions \<open>j\<close> and \<open>i\<close>, which hold equal keys, the sort puts \<open>j\<close> first. The sort itself is
  written as an insertion sort that asks \<open>ties\<close> only between equal keys.
\<close>

type_synonym ties = "series \<Rightarrow> nat \<Rightarrow> nat \<Rightarrow> bool"

fun insort_idx :: "ties \<Rightarrow> series \<Rightarrow> nat \<Rightarrow> nat list \<Rightarrow> nat list" where
  "insort_idx ties key i [] = [i]"
| "insort_idx ties key i (j # js) =
     (if flt (key ! j) (key ! i) \<or> (key ! j = key ! i \<and> ties key j i)
      then j # insort_idx ties key i js else i # j # js)"

definition argsort :: "ties \<Rightarrow> series \<Rightarrow> nat list \<Rightarrow> nat list" where
  "argsort ties key idx = foldr (insort_idx ties key) idx []"

definition nargsort_desc :: "ties \<Rightarrow> series \<Rightarrow> nat list" where
  "nargsort_desc ties key =
     (let idx = [0..<length key];
          non_nan_idx = filter (\<lambda>i. key ! i \<noteq> NaN) idx;
          nan_idx = filter (\<lambda>i. key ! i = NaN) idx
      in rev (argsort ties key (rev non_nan_idx)) @ nan_idx)"

definition sort_values_desc :: "ties \<Rightarrow> frame \<Rightarrow> string \<Rightarrow> frame option" where
  "sort_values_desc ties df c =
     do { key \<leftarrow> getitem df c; Some (take_rows df (nargsort_desc ties key)) }"

text \<open>
  Frames are objects: a variable holds the address of a frame in the store, \<open>df.copy()\<close>
  allocates a new frame with the same contents, and \<open>df[c] = v\<close> writes the frame at the
  address \<open>df\<close> holds. An address that holds nothing is an unbound name.
\<close>

type_synonym addr = nat
type_synonym heap = "frame list"

definition lookup :: "heap \<Rightarrow> addr \<Rightarrow> frame option" where
  "lookup h a = (if a < length h then Some (h ! a) else None)"

definition alloc :: "frame \<Rightarrow> heap \<Rightarrow> addr \<times> heap" where
  "alloc df h = (length h, h @ [df])"

definition copy :: "addr \<Rightarrow> heap \<Rightarrow> (addr \<times> heap) option" where
  "copy a h = do { df \<leftarrow> lookup h a; Some (alloc df h) }"

definition getitem_at :: "heap \<Rightarrow> addr \<Rightarrow> string \<Rightarrow> series option" where
  "getitem_at h a c = do { df \<leftarrow> lookup h a; getitem df c }"

definition setitem_at :: "addr \<Rightarrow> string \<Rightarrow> series \<Rightarrow> heap \<Rightarrow> heap option" where
  "setitem_at a c v h =
     do { df \<leftarrow> lookup h a; df' \<leftarrow> setitem df c v; Some (h[a := df']) }"

section \<open>The scorer\<close>

text \<open>
  \<open>(s - s.min()) / (s.max() - s.min())\<close>, as the three normalisation lines of
  \<open>compute_product_scores\<close> write it: nothing guards the divisor.
\<close>

definition min_max_norm :: "series \<Rightarrow> series" where
  "min_max_norm s =
     div_scalar (sub_scalar s (series_min s)) (fsub (series_max s) (series_min s))"

text \<open>
  \<open>compute_product_scores(w_t, w_r)\<close> reads the global \<open>product_stats\<close>, here the address
  \<open>ps\<close>. It returns the selected and sorted table, and the store as the call leaves it.
  \<open>ties\<close> is the order in which the sort of the last line leaves equal scores.
\<close>

definition compute_product_scores ::
  "ties \<Rightarrow> real \<Rightarrow> real \<Rightarrow> addr \<Rightarrow> heap \<Rightarrow> (frame \<times> heap) option" where
  "compute_product_scores ties w_t w_r ps h0 =
     do {
       (df, h1) \<leftarrow> copy ps h0;
       profit \<leftarrow> getitem_at h1 df ''profit'';
       h2 \<leftarrow> setitem_at df ''profit_norm'' (min_max_norm profit) h1;
       time \<leftarrow> getitem_at h2 df ''time'';
       h3 \<leftarrow> setitem_at df ''time_norm'' (min_max_norm time) h2;
       resource \<leftarrow> getitem_at h3 df ''resource'';
       h4 \<leftarrow> setitem_at df ''resource_norm'' (min_max_norm resource) h3;
       profit_norm \<leftarrow> getitem_at h4 df ''profit_norm'';
       time_norm \<leftarrow> getitem_at h4 df ''time_norm'';
       resource_norm \<leftarrow> getitem_at h4 df ''resource_norm'';
       h5 \<leftarrow> setitem_at df ''score''
               (series_sub (series_sub profit_norm (scalar_mul (Fin w_t) time_norm))
                  (scalar_mul (Fin w_r) resource_norm)) h4;
       final \<leftarrow> lookup h5 df;
       selected \<leftarrow> select final [''profit'', ''time'', ''resource'', ''score''];
       sorted \<leftarrow> sort_values_desc ties selected ''score'';
       Some (sorted, h5)
     }"

section \<open>The aggregator\<close>

text \<open>
  \<open>mean\<close> of a group skips NaN cells; the mean of nothing is NaN.
\<close>

definition series_mean :: "series \<Rightarrow> f64" where
  "series_mean s =
     (case dropna s of [] \<Rightarrow> NaN
      | v # vs \<Rightarrow> fdiv (foldl fadd v vs) (Fin (real (length (v # vs)))))"

definition group_values :: "string list \<Rightarrow> 'a list \<Rightarrow> string \<Rightarrow> 'a list" where
  "group_values names s k = map snd (filter (\<lambda>nv. fst nv = k) (zip names s))"

text \<open>
  \<open>df.groupby('product_name').agg({c: 'mean', ...}).reset_index()\<close>: one row for each
  distinct product name, in ascending order of the names, and the columns of the
  dictionary in its order. A column of the dictionary that the frame lacks raises.
\<close>

definition groupby_mean :: "frame \<Rightarrow> string list \<Rightarrow> frame option" where
  "groupby_mean df cs =
     do { cols \<leftarrow> select_columns df cs;
          let keys = sort (remdups (product_name df));
          Some \<lparr>product_name = keys,
                columns = map (\<lambda>cv. (fst cv,
                  map (\<lambda>k. series_mean (group_values (product_name df) (snd cv) k)) keys)) cols\<rparr> }"

definition rename :: "frame \<Rightarrow> (string \<times> string) list \<Rightarrow> frame" where
  "rename df m =
     df\<lparr>columns := map (\<lambda>cv. (case map_of m (fst cv) of Some c' \<Rightarrow> c' | None \<Rightarrow> fst cv, snd cv))
                       (columns df)\<rparr>"

text \<open>
  The cell of the notebook that builds \<open>product_stats\<close> from the order table \<open>df\<close>.
\<close>

definition product_stats :: "frame \<Rightarrow> frame option" where
  "product_stats df =
     do {
       g \<leftarrow> groupby_mean df
              [''profit_per_unit'', ''actual_cycle_time_per_unit_min'', ''material_qty_used'',
               ''material_cost_per_unit'', ''labor_hours'', ''labor_cost_per_hour'',
               ''energy_kwh'', ''energy_cost_per_kwh'', ''actual_quantity''];
       material_qty_used \<leftarrow> getitem g ''material_qty_used'';
       material_cost_per_unit \<leftarrow> getitem g ''material_cost_per_unit'';
       labor_hours \<leftarrow> getitem g ''labor_hours'';
       labor_cost_per_hour \<leftarrow> getitem g ''labor_cost_per_hour'';
       actual_quantity \<leftarrow> getitem g ''actual_quantity'';
       energy_kwh \<leftarrow> getitem g ''energy_kwh'';
       energy_cost_per_kwh \<leftarrow> getitem g ''energy_cost_per_kwh'';
       g' \<leftarrow> setitem g ''resource_cost''
               (series_add
                 (series_add (series_mul material_qty_used material_cost_per_unit)
                    (series_div (series_mul labor_hours labor_cost_per_hour) actual_quantity))
                 (series_div (series_mul energy_kwh energy_cost_per_kwh) actual_quantity));
       Some (rename g' [(''profit_per_unit'', ''profit''),
                        (''actual_cycle_time_per_unit_min'', ''time''),
                        (''resource_cost'', ''resource'')])
     }"

section \<open>The allocator\<close>

text \<open>
  \<open>scipy.optimize.linprog\<close> is not part of the notebook: it is a parameter of the model. It
  receives the problem the notebook builds and either raises (\<open>None\<close>) or returns a result
  object, of which the notebook reads \<open>success\<close>, \<open>message\<close> and \<open>x\<close>.
\<close>

record lp_problem =
  lp_c :: series
  lp_A_ub :: "series list"
  lp_b_ub :: series
  lp_bounds :: "(real \<times> real option) list"

record linprog_result =
  success :: bool
  status :: int
  message :: string
  x_values :: "real list"

type_synonym linprog = "lp_problem \<Rightarrow> linprog_result option"

text \<open>
  \<open>np.round\<close> rounds a float to the nearest whole number, a half to the even neighbour; the
  result is a float. \<open>astype(int)\<close> converts it to int64; a value outside the range of
  int64 is converted to the least int64, as the conversion instruction of x86-64 does.
\<close>

definition np_round :: "real \<Rightarrow> real" where
  "np_round v =
     (let f = \<lfloor>v\<rfloor>; d = v - of_int f
      in of_int (if d < 1 / 2 then f else if 1 / 2 < d then f + 1
                 else if even f then f else f + 1))"

definition astype_int :: "real \<Rightarrow> int" where
  "astype_int v =
     (let n = (if 0 \<le> v then \<lfloor>v\<rfloor> else \<lceil>v\<rceil>)
      in if - (2 ^ 63) \<le> n \<and> n < 2 ^ 63 then n else - (2 ^ 63))"

record plan =
  plan_product_name :: "string list"
  plan_score :: series
  recommended_qty :: "int list"

text \<open>
  \<open>optimize_production\<close> returns either a table or a string: the two constructors.
\<close>

datatype allocation = Recommended plan | Failed string

definition build_problem :: "frame \<Rightarrow> real \<Rightarrow> real \<Rightarrow> lp_problem option" where
  "build_problem data T_max R_max =
     do {
       score \<leftarrow> getitem data ''score'';
       time \<leftarrow> getitem data ''time'';
       resource \<leftarrow> getitem data ''resource'';
       Some \<lparr>lp_c = map fneg score,
             lp_A_ub = [time, resource],
             lp_b_ub = [Fin T_max, Fin R_max],
             lp_bounds = replicate (nrows data) (0, None)\<rparr>
     }"

definition optimize_production ::
  "ties \<Rightarrow> linprog \<Rightarrow> real \<Rightarrow> real \<Rightarrow> real \<Rightarrow> real \<Rightarrow> addr \<Rightarrow> heap \<Rightarrow>
   (allocation \<times> heap) option" where
  "optimize_production ties linprog w_t w_r T_max R_max ps h0 =
     do {
       (data, h1) \<leftarrow> compute_product_scores ties w_t w_r ps h0;
       problem \<leftarrow> build_problem data T_max R_max;
       result \<leftarrow> linprog problem;
       if success result then
         do {
           score \<leftarrow> getitem data ''score'';
           let quantities = x_values result;
           if length quantities = nrows data then
             Some (Recommended \<lparr>plan_product_name = product_name data,
                                 plan_score = score,
                                 recommended_qty = map (\<lambda>v. astype_int (np_round v)) quantities\<rparr>,
                   h1)
           else None
         }
       else Some (Failed (''Optimization failed: '' @ message result), h1)
     }"

section \<open>Inputs of the scorer, and an example\<close>

text \<open>
  The table \<open>product_stats\<close> that the scorer reads has the three metric columns, each of the
  length of the table.
\<close>

definition has_metrics :: "frame \<Rightarrow> series \<Rightarrow> series \<Rightarrow> series \<Rightarrow> bool" where
  "has_metrics src p t r =
     (getitem src ''profit'' = Some p \<and> getitem src ''time'' = Some t \<and>
      getitem src ''resource'' = Some r \<and>
      length p = nrows src \<and> length t = nrows src \<and> length r = nrows src)"

text \<open>The score column, and the frame \<open>df\<close> as the call leaves it in the store.\<close>

definition score_series :: "real \<Rightarrow> real \<Rightarrow> series \<Rightarrow> series \<Rightarrow> series \<Rightarrow> series" where
  "score_series w_t w_r pn tn rn =
     series_sub (series_sub pn (scalar_mul (Fin w_t) tn)) (scalar_mul (Fin w_r) rn)"

definition scored_frame :: "real \<Rightarrow> real \<Rightarrow> frame \<Rightarrow> series \<Rightarrow> series \<Rightarrow> series \<Rightarrow> frame" where
  "scored_frame w_t w_r src p t r =
     src\<lparr>columns :=
       AList.update ''score''
         (score_series w_t w_r (min_max_norm p) (min_max_norm t) (min_max_norm r))
        (AList.update ''resource_norm'' (min_max_norm r)
          (AList.update ''time_norm'' (min_max_norm t)
            (AList.update ''profit_norm'' (min_max_norm p) (columns src))))\<rparr>"

text \<open>Three products with pairwise different metrics.\<close>

definition stats3 :: frame where
  "stats3 =
     \<lparr>product_name = [''Bolt'', ''Gear'', ''Shaft''],
      columns = [(''profit'', [Fin 10, Fin 20, Fin 15]),
                 (''time'', [Fin 1, Fin 3, Fin 2]),
                 (''resource'', [Fin 4, Fin 8, Fin 5])]\<rparr>"

text \<open>Two products with the same profit.\<close>

definition stats_same_profit :: frame where
  "stats_same_profit =
     \<lparr>product_name = [''Bolt'', ''Gear''],
      columns = [(''profit'', [Fin 10, Fin 10]),
                 (''time'', [Fin 1, Fin 3]),
                 (''resource'', [Fin 4, Fin 8])]\<rparr>"

text \<open>
  The greatest difference of two floats that is still a float: a difference of
  \<open>2^1024 - 2^970\<close> or more is rounded to infinity.
\<close>

definition float64_overflow :: real where
  "float64_overflow = 2 ^ 1024 - 2 ^ 970"

section \<open>The order of the sorted rows\<close>

text \<open>
  Two ways to order equal keys: \<open>ties_in_order\<close> leaves the rows that hold them in the order
  of the table, as a stable sort does, and \<open>ties_reversed\<close> leaves them in the opposite
  order.
\<close>

definition ties_in_order :: ties where
  "ties_in_order = (\<lambda>key j i. False)"

definition ties_reversed :: ties where
  "ties_reversed = (\<lambda>key j i. True)"



section \<open>Inputs of the aggregator\<close>

text \<open>
  The order table \<open>df\<close> that the aggregator reads: the nine columns it averages, here with
  finite values, one cell for each order.
\<close>

definition order_table ::
  "frame \<Rightarrow> real list \<Rightarrow> real list \<Rightarrow> real list \<Rightarrow> real list \<Rightarrow> real list \<Rightarrow> real list \<Rightarrow>
   real list \<Rightarrow> real list \<Rightarrow> real list \<Rightarrow> bool" where
  "order_table df pu ct m mc l lc e ec q =
     (getitem df ''profit_per_unit'' = Some (map Fin pu) \<and>
      getitem df ''actual_cycle_time_per_unit_min'' = Some (map Fin ct) \<and>
      getitem df ''material_qty_used'' = Some (map Fin m) \<and>
      getitem df ''material_cost_per_unit'' = Some (map Fin mc) \<and>
      getitem df ''labor_hours'' = Some (map Fin l) \<and>
      getitem df ''labor_cost_per_hour'' = Some (map Fin lc) \<and>
      getitem df ''energy_kwh'' = Some (map Fin e) \<and>
      getitem df ''energy_cost_per_kwh'' = Some (map Fin ec) \<and>
      getitem df ''actual_quantity'' = Some (map Fin q) \<and>
      length pu = nrows df \<and> length ct = nrows df \<and> length m = nrows df \<and>
      length mc = nrows df \<and> length l = nrows df \<and> length lc = nrows df \<and>
      length e = nrows df \<and> length ec = nrows df \<and> length q = nrows df)"

text \<open>
  The arithmetic mean, and the mean of a column over the orders of one product.
\<close>

definition avg :: "real list \<Rightarrow> real" where
  "avg xs = sum_list xs / real (length xs)"

definition group_mean :: "frame \<Rightarrow> real list \<Rightarrow> string \<Rightarrow> real" where
  "group_mean df v k = avg (group_values (product_name df) v k)"

text \<open>
  The column of group means that \<open>groupby_mean\<close> builds, and the derived column
  \<open>resource_cost\<close>, as \<open>product_stats\<close> computes them.
\<close>

definition mean_column :: "frame \<Rightarrow> series \<Rightarrow> series" where
  "mean_column df v =
     map (\<lambda>k. series_mean (group_values (product_name df) v k)) (sort (remdups (product_name df)))"

definition resource_column :: "frame \<Rightarrow> series \<Rightarrow> series \<Rightarrow> series \<Rightarrow> series \<Rightarrow> series \<Rightarrow> series \<Rightarrow> series \<Rightarrow> series" where
  "resource_column df m mc l lc e ec q =
     series_add
       (series_add (series_mul (mean_column df m) (mean_column df mc))
          (series_div (series_mul (mean_column df l) (mean_column df lc)) (mean_column df q)))
       (series_div (series_mul (mean_column df e) (mean_column df ec)) (mean_column df q))"

text \<open>
  An order table with no orders; one with a single order that produced nothing; and one with
  three orders of two products.
\<close>

definition orders_none :: frame where
  "orders_none =
     \<lparr>product_name = [],
      columns = [(''profit_per_unit'', []), (''actual_cycle_time_per_unit_min'', []),
                 (''material_qty_used'', []), (''material_cost_per_unit'', []),
                 (''labor_hours'', []), (''labor_cost_per_hour'', []),
                 (''energy_kwh'', []), (''energy_cost_per_kwh'', []),
                 (''actual_quantity'', [])]\<rparr>"

definition orders_idle :: frame where
  "orders_idle =
     \<lparr>product_name = [''Bolt''],
      columns = [(''profit_per_unit'', [Fin 3]), (''actual_cycle_time_per_unit_min'', [Fin 2]),
                 (''material_qty_used'', [Fin 4]), (''material_cost_per_unit'', [Fin 3]),
                 (''labor_hours'', [Fin 2]), (''labor_cost_per_hour'', [Fin 30]),
                 (''energy_kwh'', [Fin 5]), (''energy_cost_per_kwh'', [Fin 2]),
                 (''actual_quantity'', [Fin 0])]\<rparr>"

definition orders3 :: frame where
  "orders3 =
     \<lparr>product_name = [''Gear'', ''Bolt'', ''Gear''],
      columns = [(''profit_per_unit'', [Fin 3, Fin 5, Fin 7]),
                 (''actual_cycle_time_per_unit_min'', [Fin 2, Fin 1, Fin 4]),
                 (''material_qty_used'', [Fin 4, Fin 1, Fin 2]),
                 (''material_cost_per_unit'', [Fin 3, Fin 2, Fin 5]),
                 (''labor_hours'', [Fin 2, Fin 1, Fin 4]),
                 (''labor_cost_per_hour'', [Fin 30, Fin 20, Fin 10]),
                 (''energy_kwh'', [Fin 5, Fin 2, Fin 7]),
                 (''energy_cost_per_kwh'', [Fin 2, Fin 2, Fin 2]),
                 (''actual_quantity'', [Fin 10, Fin 4, Fin 30])]\<rparr>"

text \<open>
  Three orders of three products, of which the order of Bolt produced nothing; and the table
  the aggregator makes of them.
\<close>

definition orders_mixed :: frame where
  "orders_mixed =
     \<lparr>product_name = [''Bolt'', ''Gear'', ''Shaft''],
      columns = [(''profit_per_unit'', [Fin 3, Fin 5, Fin 7]),
                 (''actual_cycle_time_per_unit_min'', [Fin 2, Fin 1, Fin 4]),
                 (''material_qty_used'', [Fin 4, Fin 1, Fin 2]),
                 (''material_cost_per_unit'', [Fin 3, Fin 2, Fin 5]),
                 (''labor_hours'', [Fin 2, Fin 1, Fin 4]),
                 (''labor_cost_per_hour'', [Fin 30, Fin 20, Fin 10]),
                 (''energy_kwh'', [Fin 5, Fin 2, Fin 7]),
                 (''energy_cost_per_kwh'', [Fin 2, Fin 2, Fin 2]),
                 (''actual_quantity'', [Fin 0, Fin 4, Fin 10])]\<rparr>"

definition stats_mixed :: frame where
  "stats_mixed =
     \<lparr>product_name = [''Bolt'', ''Gear'', ''Shaft''],
      columns = [(''profit'', [Fin 3, Fin 5, Fin 7]),
                 (''time'', [Fin 2, Fin 1, Fin 4]),
                 (''material_qty_used'', [Fin 4, Fin 1, Fin 2]),
                 (''material_cost_per_unit'', [Fin 3, Fin 2, Fin 5]),
                 (''labor_hours'', [Fin 2, Fin 1, Fin 4]),
                 (''labor_cost_per_hour'', [Fin 30, Fin 20, Fin 10]),
                 (''energy_kwh'', [Fin 5, Fin 2, Fin 7]),
                 (''energy_cost_per_kwh'', [Fin 2, Fin 2, Fin 2]),
                 (''actual_quantity'', [Fin 0, Fin 4, Fin 10]),
                 (''resource'', [PInf, Fin 8, Fin (77 / 5)])]\<rparr>"


definition stats_tie :: frame where
  "stats_tie =
     \<lparr>product_name = [''Axle'', ''Bolt'', ''Gear'', ''Shaft''],
      columns = [(''profit'', [Fin 10, Fin 10, Fin 20, Fin 30]),
                 (''time'', [Fin 3, Fin 3, Fin 2, Fin 1]),
                 (''material_qty_used'', [Fin 2, Fin 2, Fin 1, Fin 1]),
                 (''material_cost_per_unit'', [Fin 3, Fin 3, Fin 4, Fin 3]),
                 (''labor_hours'', [Fin 1, Fin 1, Fin 1, Fin 1]),
                 (''labor_cost_per_hour'', [Fin 20, Fin 20, Fin 10, Fin 10]),
                 (''energy_kwh'', [Fin 5, Fin 5, Fin 5, Fin 5]),
                 (''energy_cost_per_kwh'', [Fin 2, Fin 2, Fin 2, Fin 2]),
                 (''actual_quantity'', [Fin 10, Fin 10, Fin 10, Fin 10]),
                 (''resource'', [Fin 9, Fin 9, Fin 6, Fin 5])]\<rparr>"

section \<open>Inputs of the allocator\<close>




text \<open>
  A solver that returns a given result whatever the problem, and the results by which
  \<open>linprog\<close> reports an unbounded problem (status 3) and an infeasible problem (status 2).
\<close>

definition linprog_reports :: "linprog_result \<Rightarrow> linprog" where
  "linprog_reports result = (\<lambda>problem. Some result)"

text \<open>
  \<open>linprog\<close> checks its input before it solves and raises ValueError when the objective
  has a coefficient that is NaN or infinite. \<open>linprog_validating\<close> is a solver that makes
  this check and otherwise returns the given result.
\<close>

definition linprog_validating :: "linprog_result \<Rightarrow> linprog" where
  "linprog_validating result =
     (\<lambda>problem. if list_all is_fin (lp_c problem) then Some result else None)"


definition report_infeasible :: linprog_result where
  "report_infeasible =
     \<lparr>success = False, status = 2, message = ''The problem is infeasible.'', x_values = []\<rparr>"

section \<open>The store under the scorer\<close>

lemma lookup_append_new [simp]: "lookup (h @ [df]) (length h) = Some df"
  by (simp add: lookup_def)

lemma getitem_at_new [simp]: "getitem_at (h @ [df]) (length h) c = getitem df c"
  by (simp add: getitem_at_def)

lemma setitem_at_new [simp]:
  "setitem_at (length h) c v (h @ [df]) = map_option (\<lambda>df'. h @ [df']) (setitem df c v)"
  by (cases "setitem df c v") (simp_all add: setitem_at_def)

lemma copy_eq: "copy ps h = map_option (\<lambda>src. (length h, h @ [src])) (lookup h ps)"
  by (cases "lookup h ps") (simp_all add: copy_def alloc_def)

lemma bind_map_option: "Option.bind (map_option f m) k = Option.bind m (\<lambda>a. k (f a))"
  by (cases m) simp_all

lemma map_option_bind_fun:
  "map_option f (Option.bind m k) = Option.bind m (\<lambda>a. map_option f (k a))"
  by (cases m) simp_all

lemma compute_product_scores_extends:
  assumes "compute_product_scores ties w_t w_r ps h = Some (out, h')"
  shows "take (length h) h' = h" and "length h' = Suc (length h)" and "ps < length h"
  using assms
  by (auto simp: compute_product_scores_def copy_eq bind_map_option lookup_def
      split: Option.bind_splits if_splits)

lemma compute_product_scores_reads_ps:
  assumes "lookup h ps = lookup g ps"
  shows "map_option fst (compute_product_scores ties w_t w_r ps h) =
         map_option fst (compute_product_scores ties w_t w_r ps g)"
  using assms
  by (simp add: compute_product_scores_def copy_eq bind_map_option map_option_bind_fun
      split_def)

lemmas frame_defs =
  getitem_def setitem_def nrows_def select_def sort_values_desc_def take_rows_def
  getitem_at_def setitem_at_def lookup_def copy_def alloc_def

lemmas series_defs =
  min_max_norm_def series_min_def series_max_def dropna_def sub_scalar_def div_scalar_def
  scalar_mul_def series_sub_def series_add_def series_mul_def series_div_def fsub_def
  inf_of_sign_def

lemmas sort_defs =
  nargsort_desc_def argsort_def upt_conv_Cons ties_in_order_def ties_reversed_def

text \<open>
  C10. Scoring never mutates its input: after a call of the scorer, for any weights, the
  object that \<open>product_stats\<close> names (and every other object that existed before the call)
  is what it was; the call only adds its own copy \<open>df\<close> to the store. So a later call, with
  other weights, reads the same table and returns what it would have returned before.
\<close>

theorem scoring_leaves_product_stats_unchanged:
  assumes "compute_product_scores ties w_t w_r ps h = Some (out, h')"
  shows "lookup h' ps = lookup h ps \<and> take (length h) h' = h \<and>
         map_option fst (compute_product_scores ties w_t' w_r' ps h') =
           map_option fst (compute_product_scores ties w_t' w_r' ps h)"
proof -
  note ext = compute_product_scores_extends [OF assms]
  have "h' ! ps = take (length h) h' ! ps"
    using ext(3) by simp
  then have same: "lookup h' ps = lookup h ps"
    using ext by (simp add: lookup_def)
  from compute_product_scores_reads_ps [OF same] same ext(1) show ?thesis
    by simp
qed

theorem scoring_leaves_product_stats_unchanged_witness:
  "\<exists>out h'. compute_product_scores ties_in_order 1 2 0 [stats3] = Some (out, h') \<and>
     lookup h' 0 = Some stats3 \<and> take 1 h' = [stats3] \<and>
     map_option fst (compute_product_scores ties_in_order 3 0 0 h') =
       map_option fst (compute_product_scores ties_in_order 3 0 0 [stats3])"
proof -
  obtain out h' where run: "compute_product_scores ties_in_order 1 2 0 [stats3] = Some (out, h')"
    by (simp add: compute_product_scores_def stats3_def frame_defs series_defs)
  from scoring_leaves_product_stats_unchanged [OF run, of 3 0] have
    "lookup h' 0 = Some stats3 \<and> take 1 h' = [stats3] \<and>
     map_option fst (compute_product_scores ties_in_order 3 0 0 h') =
       map_option fst (compute_product_scores ties_in_order 3 0 0 [stats3])"
    by (simp add: lookup_def)
  with run show ?thesis
    by blast
qed

section \<open>What a call of the scorer computes\<close>

lemma getitem_update:
  "getitem (df\<lparr>columns := AList.update c v (columns df)\<rparr>) c' =
     (if c' = c then Some v else getitem df c')"
  by (simp add: getitem_def update_conv')

lemma length_min_max_norm [simp]: "length (min_max_norm s) = length s"
  by (simp add: min_max_norm_def div_scalar_def sub_scalar_def)

lemma length_score_series:
  "length pn = n \<Longrightarrow> length tn = n \<Longrightarrow> length rn = n \<Longrightarrow>
   length (score_series w_t w_r pn tn rn) = n"
  by (simp add: score_series_def series_sub_def scalar_mul_def)

lemma score_series_nth:
  assumes "i < length pn" "length tn = length pn" "length rn = length pn"
  shows "score_series w_t w_r pn tn rn ! i =
           fsub (fsub (pn ! i) (fmul (Fin w_t) (tn ! i))) (fmul (Fin w_r) (rn ! i))"
  using assms by (simp add: score_series_def series_sub_def scalar_mul_def)

lemma compute_product_scores_run:
  assumes "lookup h ps = Some src" and "has_metrics src p t r"
  shows "compute_product_scores ties w_t w_r ps h =
           Some (take_rows
                   \<lparr>product_name = product_name src,
                    columns = [(''profit'', p), (''time'', t), (''resource'', r),
                               (''score'', score_series w_t w_r (min_max_norm p)
                                   (min_max_norm t) (min_max_norm r))]\<rparr>
                   (nargsort_desc ties (score_series w_t w_r (min_max_norm p)
                                   (min_max_norm t) (min_max_norm r))),
                 h @ [scored_frame w_t w_r src p t r])"
proof -
  have len: "length (score_series w_t w_r (min_max_norm p) (min_max_norm t) (min_max_norm r))
               = length (product_name src)"
    using assms(2) by (simp add: length_score_series has_metrics_def nrows_def)
  show ?thesis
    using assms len
    by (simp add: compute_product_scores_def copy_eq setitem_def has_metrics_def nrows_def
        getitem_update select_def sort_values_desc_def scored_frame_def getitem_def
        update_conv' flip: score_series_def)
qed

lemma scored_frame_columns:
  assumes "has_metrics src p t r"
  shows "getitem (scored_frame w_t w_r src p t r) ''profit_norm'' = Some (min_max_norm p)"
    and "getitem (scored_frame w_t w_r src p t r) ''time_norm'' = Some (min_max_norm t)"
    and "getitem (scored_frame w_t w_r src p t r) ''resource_norm'' = Some (min_max_norm r)"
    and "getitem (scored_frame w_t w_r src p t r) ''score'' =
           Some (score_series w_t w_r (min_max_norm p) (min_max_norm t) (min_max_norm r))"
  by (simp_all add: scored_frame_def getitem_def update_conv')

subsection \<open>argsort is a permutation\<close>

lemma mset_insort_idx: "mset (insort_idx ties key i js) = add_mset i (mset js)"
  by (induction js) simp_all

lemma mset_argsort: "mset (argsort ties key idx) = mset idx"
  by (induction idx) (simp_all add: argsort_def mset_insort_idx)

lemma mset_filter_split:
  "mset (filter (\<lambda>i. key ! i \<noteq> NaN) idx) + mset (filter (\<lambda>i. key ! i = NaN) idx) = mset idx"
  by (induction idx) simp_all

lemma mset_nargsort_desc: "mset (nargsort_desc ties key) = mset [0..<length key]"
  unfolding nargsort_desc_def Let_def mset_append mset_rev mset_argsort
  by (rule mset_filter_split)

lemma set_nargsort_desc: "set (nargsort_desc ties key) = {0..<length key}"
  using mset_eq_setD [OF mset_nargsort_desc] by simp

lemma length_nargsort_desc: "length (nargsort_desc ties key) = length key"
  using mset_eq_length [OF mset_nargsort_desc] by simp

lemma nargsort_desc_nth_less:
  "j < length key \<Longrightarrow> nargsort_desc ties key ! j < length key"
  using set_nargsort_desc [of ties key] length_nargsort_desc [of ties key]
  by (metis atLeastLessThan_iff nth_mem)

subsection \<open>min and max of a finite column\<close>

lemma dropna_Cons_Fin [simp]: "dropna (Fin a # s) = Fin a # dropna s"
  by (simp add: dropna_def)

lemma dropna_map_Fin [simp]: "dropna (map Fin xs) = map Fin xs"
  by (induction xs) (simp_all add: dropna_def)

lemma foldl_min_Fin:
  "foldl (\<lambda>m a. if flt a m then a else m) (Fin x) (map Fin ys) = Fin (fold min ys x)"
proof (induction ys arbitrary: x)
  case Nil
  show ?case by simp
next
  case (Cons y ys)
  have "(if flt (Fin y) (Fin x) then Fin y else Fin x) = Fin (min y x)"
    by (simp add: min_def)
  then show ?case
    using Cons.IH [of "min y x"] by (simp del: flt.simps)
qed

lemma foldl_max_Fin:
  "foldl (\<lambda>m a. if flt m a then a else m) (Fin x) (map Fin ys) = Fin (fold max ys x)"
proof (induction ys arbitrary: x)
  case Nil
  show ?case by simp
next
  case (Cons y ys)
  have "(if flt (Fin x) (Fin y) then Fin y else Fin x) = Fin (max y x)"
    by (simp add: max_def)
  then show ?case
    using Cons.IH [of "max y x"] by (simp del: flt.simps)
qed

lemma series_min_Fin: "xs \<noteq> [] \<Longrightarrow> series_min (map Fin xs) = Fin (Min (set xs))"
  by (cases xs) (simp_all add: series_min_def foldl_min_Fin Min.set_eq_fold del: set_simps)

lemma series_max_Fin: "xs \<noteq> [] \<Longrightarrow> series_max (map Fin xs) = Fin (Max (set xs))"
  by (cases xs) (simp_all add: series_max_def foldl_max_Fin Max.set_eq_fold del: set_simps)

lemma min_max_cell:
  "mn < mx \<Longrightarrow> fdiv (fsub (Fin v) (Fin mn)) (fsub (Fin mx) (Fin mn)) = Fin ((v - mn) / (mx - mn))"
  by (simp add: fsub_def)

lemma min_max_norm_Fin:
  assumes "xs \<noteq> []" and "Min (set xs) < Max (set xs)"
  shows "min_max_norm (map Fin xs) =
           map (\<lambda>v. Fin ((v - Min (set xs)) / (Max (set xs) - Min (set xs)))) xs"
proof -
  have "min_max_norm (map Fin xs) =
          map (\<lambda>v. fdiv (fsub (Fin v) (Fin (Min (set xs))))
                      (fsub (Fin (Max (set xs))) (Fin (Min (set xs))))) xs"
    unfolding min_max_norm_def sub_scalar_def div_scalar_def
      series_min_Fin [OF assms(1)] series_max_Fin [OF assms(1)]
    by (simp only: map_map comp_def)
  then show ?thesis
    by (simp only: min_max_cell [OF assms(2)])
qed

subsection \<open>a constant column\<close>

lemma flt_irrefl [simp]: "\<not> flt c c"
  by (cases c) simp_all

lemma series_min_max_replicate:
  assumes "c \<noteq> NaN" "0 < n"
  shows "series_min (replicate n c) = c" and "series_max (replicate n c) = c"
proof -
  obtain m where n: "n = Suc m" using assms(2) by (cases n) auto
  have "dropna (replicate n c) = c # replicate m c"
    using assms(1) by (simp add: dropna_def n)
  moreover have "foldl (\<lambda>m a. if flt a m then a else m) c (replicate m c) = c"
    by (induction m) simp_all
  moreover have "foldl (\<lambda>m a. if flt m a then a else m) c (replicate m c) = c"
    by (induction m) simp_all
  ultimately show "series_min (replicate n c) = c" and "series_max (replicate n c) = c"
    by (simp_all add: series_min_def series_max_def)
qed

lemma fdiv_self_difference: "fdiv (fsub c c) (fsub c c) = NaN"
  by (cases c) (simp_all add: fsub_def inf_of_sign_def)

lemma min_max_norm_replicate: "min_max_norm (replicate n c) = replicate n NaN"
proof (cases "c = NaN \<or> n = 0")
  case True
  then show ?thesis
    by (auto simp: min_max_norm_def sub_scalar_def div_scalar_def fsub_def)
next
  case False
  then show ?thesis
    by (simp add: min_max_norm_def sub_scalar_def div_scalar_def series_min_max_replicate
        fdiv_self_difference)
qed

lemma min_max_norm_constant:
  assumes "\<forall>v\<in>set s. v = c"
  shows "min_max_norm s = replicate (length s) NaN"
proof -
  have "s = replicate (length s) c"
    using assms by (simp add: replicate_length_same)
  then show ?thesis
    using min_max_norm_replicate [of "length s" c] by simp
qed

lemma norm_column_of_run:
  assumes "lookup h ps = Some src" and "has_metrics src p t r"
  shows "compute_product_scores ties w_t w_r ps h \<bind> (\<lambda>(out, h'). getitem_at h' (length h) ''profit_norm'')
           = Some (min_max_norm p)"
    and "compute_product_scores ties w_t w_r ps h \<bind> (\<lambda>(out, h'). getitem_at h' (length h) ''time_norm'')
           = Some (min_max_norm t)"
    and "compute_product_scores ties w_t w_r ps h \<bind> (\<lambda>(out, h'). getitem_at h' (length h) ''resource_norm'')
           = Some (min_max_norm r)"
    and "compute_product_scores ties w_t w_r ps h \<bind> (\<lambda>(out, h'). getitem_at h' (length h) ''score'')
           = Some (score_series w_t w_r (min_max_norm p) (min_max_norm t) (min_max_norm r))"
  by (simp_all add: compute_product_scores_run [OF assms] scored_frame_columns [OF assms(2)])

text \<open>
  C1, as the code has it. If every product has the same value in a metric column, the
  scorer's normalised value of that metric is NaN for every product, for all weights: the
  three normalisation lines divide by \<open>max - min = 0\<close> without a guard, and \<open>0 / 0\<close> on floats
  is NaN, not an error and not 0.
\<close>

theorem constant_metric_normalises_to_nan:
  assumes "lookup h ps = Some src" and "has_metrics src p t r"
    and "(c, s) \<in> {(''profit_norm'', p), (''time_norm'', t), (''resource_norm'', r)}"
    and "\<forall>v\<in>set s. v = a"
  shows "compute_product_scores ties w_t w_r ps h \<bind> (\<lambda>(out, h'). getitem_at h' (length h) c)
           = Some (replicate (nrows src) NaN)"
proof -
  have len: "length s = nrows src"
    using assms(2,3) by (auto simp: has_metrics_def)
  have "compute_product_scores ties w_t w_r ps h \<bind> (\<lambda>(out, h'). getitem_at h' (length h) c)
          = Some (min_max_norm s)"
    using assms(3) norm_column_of_run [OF assms(1,2)] by auto
  then show ?thesis
    by (simp add: min_max_norm_constant [OF assms(4)] len)
qed

lemma stats_same_profit_metrics:
  "has_metrics stats_same_profit [Fin 10, Fin 10] [Fin 1, Fin 3] [Fin 4, Fin 8]"
  by (simp add: has_metrics_def stats_same_profit_def getitem_def nrows_def)

theorem constant_metric_normalises_to_nan_witness:
  "compute_product_scores ties_in_order 1 1 0 [stats_same_profit] \<bind> (\<lambda>(out, h'). getitem_at h' 1 ''profit_norm'')
     = Some [NaN, NaN]"
  using constant_metric_normalises_to_nan [of "[stats_same_profit]" 0 stats_same_profit
      "[Fin 10, Fin 10]" "[Fin 1, Fin 3]" "[Fin 4, Fin 8]" "''profit_norm''" "[Fin 10, Fin 10]"
      "Fin 10" ties_in_order 1 1]
    stats_same_profit_metrics
  by (simp add: lookup_def nrows_def stats_same_profit_def)

text \<open>
  Two products with the same profit: the column \<open>profit_norm\<close> of the scorer's frame is
  \<open>[NaN, NaN]\<close>, not \<open>[0, 0]\<close>.
\<close>

theorem constant_metric_not_zero_counterexample:
  "map_option snd (compute_product_scores ties_in_order 1 1 0 [stats_same_profit]) =
     Some [stats_same_profit,
           \<lparr>product_name = [''Bolt'', ''Gear''],
            columns = [(''profit'', [Fin 10, Fin 10]),
                       (''time'', [Fin 1, Fin 3]),
                       (''resource'', [Fin 4, Fin 8]),
                       (''profit_norm'', [NaN, NaN]),
                       (''time_norm'', [Fin 0, Fin 1]),
                       (''resource_norm'', [Fin 0, Fin 1]),
                       (''score'', [NaN, NaN])]\<rparr>] \<and>
   NaN \<noteq> Fin 0"
  by (simp add: compute_product_scores_def stats_same_profit_def frame_defs series_defs)

lemma fle_Fin [simp]: "fle (Fin a) (Fin b) \<longleftrightarrow> a \<le> b"
  by (auto simp: fle_def)

lemma unit_interval_cell:
  fixes v mn mx :: real
  assumes "mn \<le> v" "v \<le> mx" "mn < mx"
  shows "fle (Fin 0) (Fin ((v - mn) / (mx - mn))) \<and> fle (Fin ((v - mn) / (mx - mn))) (Fin 1) \<and>
         (v = mx \<longrightarrow> Fin ((v - mn) / (mx - mn)) = Fin 1) \<and>
         (v = mn \<longrightarrow> Fin ((v - mn) / (mx - mn)) = Fin 0)"
  using assms by (simp add: divide_le_eq)

text \<open>
  C6, as the code has it. For a metric column whose values are all finite and not all the
  same (\<open>max > min\<close>), and whose range \<open>max - min\<close> is below the overflow threshold of
  float64, the normalised value of each product is \<open>(value - min) / (max - min)\<close>; it lies in
  \<open>[0, 1]\<close>, it is exactly 1 for a product that attains the maximum of the column and
  exactly 0 for one that attains the minimum. A column that holds an infinite value has
  \<open>max > min\<close> too, and there the claim fails: see the example after the theorem.
\<close>

theorem normalised_metric_in_unit_interval:
  assumes "lookup h ps = Some src" and "has_metrics src p t r"
    and "(c, s) \<in> {(''profit_norm'', p), (''time_norm'', t), (''resource_norm'', r)}"
    and "s = map Fin xs" and "xs \<noteq> []" and "Min (set xs) < Max (set xs)"
    and "Max (set xs) - Min (set xs) < float64_overflow"
  shows "\<exists>nrm. compute_product_scores ties w_t w_r ps h \<bind> (\<lambda>(out, h'). getitem_at h' (length h) c)
                 = Some nrm \<and> length nrm = nrows src \<and>
           (\<forall>i<nrows src.
              nrm ! i = Fin ((xs ! i - Min (set xs)) / (Max (set xs) - Min (set xs))) \<and>
              fle (Fin 0) (nrm ! i) \<and> fle (nrm ! i) (Fin 1) \<and>
              (xs ! i = Max (set xs) \<longrightarrow> nrm ! i = Fin 1) \<and>
              (xs ! i = Min (set xs) \<longrightarrow> nrm ! i = Fin 0))"
proof -
  let ?mn = "Min (set xs)" and ?mx = "Max (set xs)"
  let ?nrm = "map (\<lambda>v. Fin ((v - ?mn) / (?mx - ?mn))) xs"
  have len: "length xs = nrows src"
    using assms(2,3,4) by (auto simp: has_metrics_def)
  have "compute_product_scores ties w_t w_r ps h \<bind> (\<lambda>(out, h'). getitem_at h' (length h) c)
          = Some (min_max_norm s)"
    using assms(3) norm_column_of_run [OF assms(1,2)] by auto
  then have run: "compute_product_scores ties w_t w_r ps h \<bind> (\<lambda>(out, h'). getitem_at h' (length h) c)
          = Some ?nrm"
    by (simp add: assms(4) min_max_norm_Fin [OF assms(5,6)])
  have cell: "?nrm ! i = Fin ((xs ! i - ?mn) / (?mx - ?mn)) \<and>
              fle (Fin 0) (?nrm ! i) \<and> fle (?nrm ! i) (Fin 1) \<and>
              (xs ! i = ?mx \<longrightarrow> ?nrm ! i = Fin 1) \<and>
              (xs ! i = ?mn \<longrightarrow> ?nrm ! i = Fin 0)" if "i < length xs" for i
  proof -
    have "?mn \<le> xs ! i" and "xs ! i \<le> ?mx"
      using that by simp_all
    note props = unit_interval_cell [OF this assms(6)]
    have eq: "?nrm ! i = Fin ((xs ! i - ?mn) / (?mx - ?mn))"
      by (rule nth_map [OF that])
    show ?thesis
      unfolding eq using props by blast
  qed
  show ?thesis
    using run cell len by (intro exI [of _ ?nrm]) simp
qed

lemma stats3_metrics:
  "has_metrics stats3 [Fin 10, Fin 20, Fin 15] [Fin 1, Fin 3, Fin 2] [Fin 4, Fin 8, Fin 5]"
  by (simp add: has_metrics_def stats3_def getitem_def nrows_def)


theorem normalised_metric_in_unit_interval_witness:
  "\<exists>nrm. compute_product_scores ties_in_order 1 1 0 [stats3] \<bind> (\<lambda>(out, h'). getitem_at h' 1 ''time_norm'')
            = Some nrm \<and>
     fle (Fin 0) (nrm ! 2) \<and> fle (nrm ! 2) (Fin 1) \<and> nrm ! 1 = Fin 1 \<and> nrm ! 0 = Fin 0"
proof -
  have h1: "lookup [stats3] 0 = Some stats3"
    by (simp add: lookup_def)
  have h3: "(''time_norm'', [Fin 1, Fin 3, Fin 2]) \<in>
      {(''profit_norm'', [Fin 10, Fin 20, Fin 15]), (''time_norm'', [Fin 1, Fin 3, Fin 2]),
       (''resource_norm'', [Fin 4, Fin 8, Fin 5])}"
    by simp
  have h4: "[Fin 1, Fin 3, Fin 2] = map Fin [1, 3, 2]"
    by simp
  have h5: "[1, 3, 2 :: real] \<noteq> []"
    by simp
  have mn: "Min (set [1, 3, 2 :: real]) = 1" and mx: "Max (set [1, 3, 2 :: real]) = 3"
    by simp_all
  have h6: "Min (set [1, 3, 2 :: real]) < Max (set [1, 3, 2])"
    unfolding mn mx by simp
  have "(2 :: real) < 2 ^ 970 * (2 ^ 54 - 1)"
    by simp
  then have h7: "Max (set [1, 3, 2 :: real]) - Min (set [1, 3, 2]) < float64_overflow"
    unfolding mn mx float64_overflow_def by (simp add: algebra_simps flip: power_add)
  from normalised_metric_in_unit_interval [OF h1 stats3_metrics h3 h4 h5 h6 h7, of ties_in_order 1 1]
  obtain nrm where
    run: "compute_product_scores ties_in_order 1 1 0 [stats3] \<bind> (\<lambda>(out, h'). getitem_at h' (length [stats3]) ''time_norm'')
            = Some nrm"
    and cells: "\<And>i. i < nrows stats3 \<Longrightarrow>
              fle (Fin 0) (nrm ! i) \<and> fle (nrm ! i) (Fin 1) \<and>
              ([1, 3, 2] ! i = Max (set [1, 3, 2 :: real]) \<longrightarrow> nrm ! i = Fin 1) \<and>
              ([1, 3, 2] ! i = Min (set [1, 3, 2 :: real]) \<longrightarrow> nrm ! i = Fin 0)"
    by blast
  have n: "nrows stats3 = 3"
    by (simp add: nrows_def stats3_def)
  have "fle (Fin 0) (nrm ! 2)" "fle (nrm ! 2) (Fin 1)"
    using cells [of 2] n by simp_all
  moreover have "nrm ! 1 = Fin 1"
    using cells [of 1] n unfolding mx by simp
  moreover have "nrm ! 0 = Fin 0"
    using cells [of 0] n unfolding mn by simp
  ultimately show ?thesis
    using run by auto
qed

text \<open>
  An order that produced nothing gives its product the resource cost \<open>inf\<close>: the aggregator
  makes \<open>stats_mixed\<close> of \<open>orders_mixed\<close>. Its resource column \<open>[inf, 8, 15.4]\<close> has
  \<open>max > min\<close>, and the product that attains the maximum is normalised to NaN, which is
  neither 1 nor in \<open>[0, 1]\<close>: \<open>(inf - 8) / (inf - 8)\<close> is \<open>inf / inf\<close>.
\<close>

theorem infinite_metric_not_normalised_counterexample:
  "product_stats orders_mixed = Some stats_mixed \<and>
   getitem stats_mixed ''resource'' = Some [PInf, Fin 8, Fin (77 / 5)] \<and>
   series_min [PInf, Fin 8, Fin (77 / 5)] = Fin 8 \<and>
   series_max [PInf, Fin 8, Fin (77 / 5)] = PInf \<and>
   flt (Fin 8) PInf \<and>
   (compute_product_scores ties_in_order 1 1 0 [stats_mixed]
      \<bind> (\<lambda>(out, h'). getitem_at h' 1 ''resource_norm'')) = Some [NaN, Fin 0, Fin 0] \<and>
   NaN \<noteq> Fin 1 \<and> \<not> fle NaN (Fin 1) \<and> \<not> fle (Fin 0) NaN"
  by (simp add: product_stats_def groupby_mean_def group_values_def series_mean_def rename_def
      orders_mixed_def stats_mixed_def compute_product_scores_def frame_defs series_defs
      sort_defs fle_def)

section \<open>The score\<close>

text \<open>
  C5. Every row of the scorer's output is a row of the input table (the output is the input
  reordered by a permutation \<open>idx\<close>), and its score is
  \<open>profit_norm - w_t * time_norm - w_r * resource_norm\<close> of that product, with the weights of
  the call.
\<close>

theorem score_is_weighted_combination:
  assumes "lookup h ps = Some src" and "has_metrics src p t r"
  shows "\<exists>out h' pn tn rn sc idx.
           compute_product_scores ties w_t w_r ps h = Some (out, h') \<and>
           getitem_at h' (length h) ''profit_norm'' = Some pn \<and>
           getitem_at h' (length h) ''time_norm'' = Some tn \<and>
           getitem_at h' (length h) ''resource_norm'' = Some rn \<and>
           getitem out ''score'' = Some sc \<and>
           nrows out = nrows src \<and> length sc = nrows src \<and>
           mset idx = mset [0..<nrows src] \<and>
           (\<forall>j<nrows src.
              product_name out ! j = product_name src ! (idx ! j) \<and>
              sc ! j = fsub (fsub (pn ! (idx ! j)) (fmul (Fin w_t) (tn ! (idx ! j))))
                         (fmul (Fin w_r) (rn ! (idx ! j))))"
proof -
  let ?pn = "min_max_norm p" and ?tn = "min_max_norm t" and ?rn = "min_max_norm r"
  let ?S = "score_series w_t w_r ?pn ?tn ?rn"
  let ?idx = "nargsort_desc ties ?S"
  let ?out = "take_rows \<lparr>product_name = product_name src,
                columns = [(''profit'', p), (''time'', t), (''resource'', r), (''score'', ?S)]\<rparr> ?idx"
  let ?h' = "h @ [scored_frame w_t w_r src p t r]"
  have lens: "length p = nrows src" "length t = nrows src" "length r = nrows src"
    using assms(2) by (simp_all add: has_metrics_def)
  have lenS: "length ?S = nrows src"
    by (simp add: length_score_series lens)
  have run: "compute_product_scores ties w_t w_r ps h = Some (?out, ?h')"
    by (rule compute_product_scores_run [OF assms])
  have cols: "getitem_at ?h' (length h) ''profit_norm'' = Some ?pn"
    "getitem_at ?h' (length h) ''time_norm'' = Some ?tn"
    "getitem_at ?h' (length h) ''resource_norm'' = Some ?rn"
    by (simp_all add: scored_frame_columns [OF assms(2)])
  have out_score: "getitem ?out ''score'' = Some (map (\<lambda>i. ?S ! i) ?idx)"
    by (simp add: take_rows_def getitem_def)
  have out_rows: "nrows ?out = nrows src"
    by (simp add: take_rows_def nrows_def length_nargsort_desc lenS [unfolded nrows_def])
  have perm: "mset ?idx = mset [0..<nrows src]"
    using mset_nargsort_desc [of ties ?S] by (simp only: lenS)
  have row: "product_name ?out ! j = product_name src ! (?idx ! j) \<and>
             map (\<lambda>i. ?S ! i) ?idx ! j =
               fsub (fsub (?pn ! (?idx ! j)) (fmul (Fin w_t) (?tn ! (?idx ! j))))
                 (fmul (Fin w_r) (?rn ! (?idx ! j)))" if "j < nrows src" for j
  proof -
    have j: "j < length ?idx"
      using that by (simp add: length_nargsort_desc lenS)
    have i: "?idx ! j < length ?pn"
      using nargsort_desc_nth_less [of j ?S ties] that by (simp add: lenS lens)
    show ?thesis
      using j score_series_nth [OF i, of ?tn ?rn w_t w_r]
      by (simp add: take_rows_def lens)
  qed
  show ?thesis
    using run cols out_score out_rows perm row
    by (intro exI [of _ ?out] exI [of _ ?h'] exI [of _ ?pn] exI [of _ ?tn] exI [of _ ?rn]
        exI [of _ "map (\<lambda>i. ?S ! i) ?idx"] exI [of _ ?idx])
      (simp add: length_nargsort_desc lenS)
qed

theorem score_is_weighted_combination_witness:
  "\<exists>out h' sc. compute_product_scores ties_in_order 1 2 0 [stats3] = Some (out, h') \<and>
     getitem out ''score'' = Some sc \<and> nrows out = 3 \<and> length sc = 3"
proof -
  have h1: "lookup [stats3] 0 = Some stats3"
    by (simp add: lookup_def)
  have n: "nrows stats3 = 3"
    by (simp add: nrows_def stats3_def)
  from score_is_weighted_combination [OF h1 stats3_metrics, of ties_in_order 1 2] show ?thesis
    unfolding n by blast
qed

lemma score_cell_monotone:
  assumes "w < w'" and "flt (Fin 0) tn"
  shows "\<not> flt (fsub (fsub pn (fmul (Fin w) tn)) y) (fsub (fsub pn (fmul (Fin w') tn)) y)"
proof (cases tn)
  case (Fin x)
  then have "w * x < w' * x"
    using assms by (simp add: mult_strict_right_mono)
  then show ?thesis
    by (cases pn; cases y) (simp_all add: fsub_def Fin)
next
  case PInf
  then show ?thesis
    using assms(1) by (cases pn; cases y) (auto simp: fsub_def inf_of_sign_def)
next
  case NInf
  then show ?thesis using assms(2) by simp
next
  case NaN
  then show ?thesis using assms(2) by simp
qed

text \<open>
  C8. For a fixed table and a fixed resource weight, and time weights \<open>w_t < w_t'\<close>: a product
  whose \<open>time_norm\<close> is positive has a score under \<open>w_t'\<close> that is not greater than its score
  under \<open>w_t\<close>, and a product whose \<open>time_norm\<close> is 0 has the same score under both. (The
  column \<open>time_norm\<close> does not depend on the weights.)
\<close>

theorem raising_time_weight_never_raises_score:
  assumes "lookup h ps = Some src" and "has_metrics src p t r" and "w_t < w_t'"
  shows "\<exists>tn sc sc'.
           compute_product_scores ties w_t w_r ps h \<bind> (\<lambda>(out, h'). getitem_at h' (length h) ''time_norm'')
             = Some tn \<and>
           compute_product_scores ties w_t' w_r ps h \<bind> (\<lambda>(out, h'). getitem_at h' (length h) ''time_norm'')
             = Some tn \<and>
           compute_product_scores ties w_t w_r ps h \<bind> (\<lambda>(out, h'). getitem_at h' (length h) ''score'')
             = Some sc \<and>
           compute_product_scores ties w_t' w_r ps h \<bind> (\<lambda>(out, h'). getitem_at h' (length h) ''score'')
             = Some sc' \<and>
           length tn = nrows src \<and> length sc = nrows src \<and> length sc' = nrows src \<and>
           (\<forall>i<nrows src.
              (flt (Fin 0) (tn ! i) \<longrightarrow> \<not> flt (sc ! i) (sc' ! i)) \<and>
              (tn ! i = Fin 0 \<longrightarrow> sc' ! i = sc ! i))"
proof -
  let ?pn = "min_max_norm p" and ?tn = "min_max_norm t" and ?rn = "min_max_norm r"
  let ?S = "score_series w_t w_r ?pn ?tn ?rn" and ?S' = "score_series w_t' w_r ?pn ?tn ?rn"
  have lens: "length ?pn = nrows src" "length ?tn = nrows src" "length ?rn = nrows src"
    using assms(2) by (simp_all add: has_metrics_def)
  have cell: "(flt (Fin 0) (?tn ! i) \<longrightarrow> \<not> flt (?S ! i) (?S' ! i)) \<and>
              (?tn ! i = Fin 0 \<longrightarrow> ?S' ! i = ?S ! i)" if "i < nrows src" for i
  proof -
    have i: "i < length ?pn"
      using that lens by simp
    have l: "length ?tn = length ?pn" "length ?rn = length ?pn"
      using lens by simp_all
    note eq = score_series_nth [OF i l]
    show ?thesis
      unfolding eq
      using score_cell_monotone [OF assms(3), of "?tn ! i" "?pn ! i" "fmul (Fin w_r) (?rn ! i)"]
      by auto
  qed
  show ?thesis
    using norm_column_of_run [OF assms(1,2)] cell lens
    by (intro exI [of _ ?tn] exI [of _ ?S] exI [of _ ?S']) (simp add: length_score_series)
qed

theorem raising_time_weight_never_raises_score_witness:
  "\<exists>tn sc sc'.
     compute_product_scores ties_in_order 1 2 0 [stats3] \<bind> (\<lambda>(out, h'). getitem_at h' 1 ''time_norm'') = Some tn \<and>
     compute_product_scores ties_in_order 1 2 0 [stats3] \<bind> (\<lambda>(out, h'). getitem_at h' 1 ''score'') = Some sc \<and>
     compute_product_scores ties_in_order 3 2 0 [stats3] \<bind> (\<lambda>(out, h'). getitem_at h' 1 ''score'') = Some sc' \<and>
     length tn = 3 \<and> length sc = 3 \<and> length sc' = 3"
proof -
  have h1: "lookup [stats3] 0 = Some stats3"
    by (simp add: lookup_def)
  have n: "nrows stats3 = 3"
    by (simp add: nrows_def stats3_def)
  have w: "(1 :: real) < 3"
    by simp
  from raising_time_weight_never_raises_score [OF h1 stats3_metrics w, of ties_in_order 2] show ?thesis
    unfolding n by (simp only: list.size One_nat_def add_0) blast
qed

section \<open>The sort\<close>














text \<open>
  A sort that leaves equal keys in the order of the table gives Shaft, Gear, Axle, Bolt on
  the same table: which of the two outputs the scorer returns is the choice of the sort.
\<close>

lemma stats_tie_run_in_order:
  "map_option fst (compute_product_scores ties_in_order 1 1 0 [stats_tie]) =
     Some \<lparr>product_name = [''Shaft'', ''Gear'', ''Axle'', ''Bolt''],
           columns = [(''profit'', [Fin 30, Fin 20, Fin 10, Fin 10]),
                      (''time'', [Fin 1, Fin 2, Fin 3, Fin 3]),
                      (''resource'', [Fin 5, Fin 6, Fin 9, Fin 9]),
                      (''score'', [Fin 1, Fin (- (1 / 4)), Fin (- 2), Fin (- 2)])]\<rparr>"
  by (simp add: compute_product_scores_def stats_tie_def frame_defs series_defs sort_defs)



section \<open>What the aggregator computes\<close>

lemma foldl_fadd_Fin: "foldl fadd (Fin x) (map Fin ys) = Fin (x + sum_list ys)"
  by (induction ys arbitrary: x) (simp_all add: add.assoc)

lemma series_mean_Fin: "xs \<noteq> [] \<Longrightarrow> series_mean (map Fin xs) = Fin (avg xs)"
  by (cases xs) (simp_all add: series_mean_def foldl_fadd_Fin avg_def)

lemma group_values_map: "group_values names (map f v) k = map f (group_values names v k)"
proof -
  have "zip names (map f v) = map (\<lambda>nv. (fst nv, f (snd nv))) (zip names v)"
    by (simp add: zip_map2 case_prod_unfold)
  then show ?thesis
    by (simp add: group_values_def filter_map comp_def)
qed

lemma group_values_nonempty:
  assumes "k \<in> set names" and "length v = length names"
  shows "group_values names v k \<noteq> []"
proof -
  from assms(1) obtain i where i: "i < length names" "names ! i = k"
    by (auto simp: in_set_conv_nth)
  then have "(k, v ! i) \<in> set (zip names v)"
    using assms(2) by (auto simp: set_zip)
  then have "(k, v ! i) \<in> set (filter (\<lambda>nv. fst nv = k) (zip names v))"
    by simp
  then show ?thesis
    unfolding group_values_def by (metis empty_iff list.map_disc_iff list.set(1))
qed

lemma mean_column_Fin:
  assumes "length v = nrows df" and "i < length (sort (remdups (product_name df)))"
  shows "mean_column df (map Fin v) ! i =
           Fin (group_mean df v (sort (remdups (product_name df)) ! i))"
proof -
  let ?k = "sort (remdups (product_name df)) ! i"
  have "?k \<in> set (sort (remdups (product_name df)))"
    using assms(2) by (rule nth_mem)
  then have "?k \<in> set (product_name df)"
    by simp
  then have "group_values (product_name df) v ?k \<noteq> []"
    using assms(1) by (intro group_values_nonempty) (simp_all add: nrows_def)
  then show ?thesis
    using assms(2) by (simp add: mean_column_def group_values_map series_mean_Fin group_mean_def)
qed

lemma length_mean_column [simp]:
  "length (mean_column df v) = length (sort (remdups (product_name df)))"
  by (simp add: mean_column_def)

lemma product_stats_run:
  assumes "order_table df pu ct m mc l lc e ec q"
  shows "product_stats df =
           Some \<lparr>product_name = sort (remdups (product_name df)),
                 columns =
                   [(''profit'', mean_column df (map Fin pu)),
                    (''time'', mean_column df (map Fin ct)),
                    (''material_qty_used'', mean_column df (map Fin m)),
                    (''material_cost_per_unit'', mean_column df (map Fin mc)),
                    (''labor_hours'', mean_column df (map Fin l)),
                    (''labor_cost_per_hour'', mean_column df (map Fin lc)),
                    (''energy_kwh'', mean_column df (map Fin e)),
                    (''energy_cost_per_kwh'', mean_column df (map Fin ec)),
                    (''actual_quantity'', mean_column df (map Fin q)),
                    (''resource'', resource_column df (map Fin m) (map Fin mc) (map Fin l)
                        (map Fin lc) (map Fin e) (map Fin ec) (map Fin q))]\<rparr>"
proof -
  have len: "length (resource_column df (map Fin m) (map Fin mc) (map Fin l)
                        (map Fin lc) (map Fin e) (map Fin ec) (map Fin q)) =
             length (sort (remdups (product_name df)))"
    by (simp add: resource_column_def series_add_def series_mul_def series_div_def)
  show ?thesis
    using assms len
    by (simp add: product_stats_def groupby_mean_def order_table_def getitem_def setitem_def
        nrows_def rename_def Let_def flip: mean_column_def resource_column_def)
qed

lemma resource_column_nth:
  assumes "i < length (sort (remdups (product_name df)))"
  shows "resource_column df m mc l lc e ec q ! i =
           fadd (fadd (fmul (mean_column df m ! i) (mean_column df mc ! i))
                   (fdiv (fmul (mean_column df l ! i) (mean_column df lc ! i)) (mean_column df q ! i)))
             (fdiv (fmul (mean_column df e ! i) (mean_column df ec ! i)) (mean_column df q ! i))"
  using assms
  by (simp add: resource_column_def series_add_def series_mul_def series_div_def)

lemma length_resource_column [simp]:
  "length (resource_column df m mc l lc e ec q) = length (sort (remdups (product_name df)))"
  by (simp add: resource_column_def series_add_def series_mul_def series_div_def)

lemma composite_finite:
  "Q \<noteq> 0 \<Longrightarrow>
   fadd (fadd (Fin A) (fdiv (Fin B) (Fin Q))) (fdiv (Fin C) (Fin Q)) = Fin (A + B / Q + C / Q)"
  by simp

lemma product_stats_resource:
  assumes "order_table df pu ct m mc l lc e ec q"
  obtains ps res qty where
    "product_stats df = Some ps"
    "product_name ps = sort (remdups (product_name df))"
    "getitem ps ''resource'' = Some res" "length res = nrows ps"
    "getitem ps ''actual_quantity'' = Some qty" "length qty = nrows ps"
    "\<And>i. i < nrows ps \<Longrightarrow> qty ! i = Fin (group_mean df q (product_name ps ! i))"
    "\<And>i. i < nrows ps \<Longrightarrow>
       res ! i =
         fadd (fadd (Fin (group_mean df m (product_name ps ! i) *
                          group_mean df mc (product_name ps ! i)))
                 (fdiv (Fin (group_mean df l (product_name ps ! i) *
                             group_mean df lc (product_name ps ! i)))
                    (Fin (group_mean df q (product_name ps ! i)))))
           (fdiv (Fin (group_mean df e (product_name ps ! i) *
                       group_mean df ec (product_name ps ! i)))
              (Fin (group_mean df q (product_name ps ! i))))"
proof -
  let ?keys = "sort (remdups (product_name df))"
  let ?res = "resource_column df (map Fin m) (map Fin mc) (map Fin l)
                        (map Fin lc) (map Fin e) (map Fin ec) (map Fin q)"
  let ?qty = "mean_column df (map Fin q)"
  let ?ps = "\<lparr>product_name = ?keys,
                 columns =
                   [(''profit'', mean_column df (map Fin pu)),
                    (''time'', mean_column df (map Fin ct)),
                    (''material_qty_used'', mean_column df (map Fin m)),
                    (''material_cost_per_unit'', mean_column df (map Fin mc)),
                    (''labor_hours'', mean_column df (map Fin l)),
                    (''labor_cost_per_hour'', mean_column df (map Fin lc)),
                    (''energy_kwh'', mean_column df (map Fin e)),
                    (''energy_cost_per_kwh'', mean_column df (map Fin ec)),
                    (''actual_quantity'', ?qty),
                    (''resource'', ?res)]\<rparr>"
  have lens: "length m = nrows df" "length mc = nrows df" "length l = nrows df"
    "length lc = nrows df" "length e = nrows df" "length ec = nrows df" "length q = nrows df"
    using assms by (simp_all add: order_table_def)
  have names: "product_name ?ps = ?keys" and n: "nrows ?ps = length ?keys"
    by (simp_all add: nrows_def)
  have cell: "?res ! i =
      fadd (fadd (Fin (group_mean df m (?keys ! i) * group_mean df mc (?keys ! i)))
              (fdiv (Fin (group_mean df l (?keys ! i) * group_mean df lc (?keys ! i)))
                 (Fin (group_mean df q (?keys ! i)))))
        (fdiv (Fin (group_mean df e (?keys ! i) * group_mean df ec (?keys ! i)))
           (Fin (group_mean df q (?keys ! i))))" if "i < length ?keys" for i
    by (simp only: resource_column_nth [OF that] mean_column_Fin [OF _ that] lens fmul.simps)
  show thesis
  proof (rule that [of ?ps ?res ?qty])
    show "product_stats df = Some ?ps"
      by (rule product_stats_run [OF assms])
    show "product_name ?ps = ?keys"
      by (rule names)
    show "getitem ?ps ''resource'' = Some ?res" and "getitem ?ps ''actual_quantity'' = Some ?qty"
      by (simp_all add: getitem_def)
    show "length ?res = nrows ?ps" and "length ?qty = nrows ?ps"
      by (simp_all add: nrows_def)
    show "?qty ! i = Fin (group_mean df q (product_name ?ps ! i))" if "i < nrows ?ps" for i
      using that unfolding names n by (intro mean_column_Fin lens)
    show "?res ! i =
      fadd (fadd (Fin (group_mean df m (product_name ?ps ! i) * group_mean df mc (product_name ?ps ! i)))
              (fdiv (Fin (group_mean df l (product_name ?ps ! i) * group_mean df lc (product_name ?ps ! i)))
                 (Fin (group_mean df q (product_name ?ps ! i)))))
        (fdiv (Fin (group_mean df e (product_name ?ps ! i) * group_mean df ec (product_name ?ps ! i)))
           (Fin (group_mean df q (product_name ?ps ! i))))" if "i < nrows ?ps" for i
      using that unfolding names n by (rule cell)
  qed
qed

text \<open>
  C9. For every product of the aggregator's table, \<open>resource\<close> is
  \<open>(mean material quantity * mean material unit cost)
   + (mean labor hours * mean labor hourly cost) / (mean actual quantity)
   + (mean energy kWh * mean energy unit cost) / (mean actual quantity)\<close>,
  each mean being the arithmetic mean over that product's orders. The table has one row
  for each product name, in ascending order of the names.
\<close>

theorem resource_is_composite_of_group_means:
  assumes "order_table df pu ct m mc l lc e ec q"
  shows "\<exists>ps res.
           product_stats df = Some ps \<and>
           product_name ps = sort (remdups (product_name df)) \<and>
           getitem ps ''resource'' = Some res \<and> length res = nrows ps \<and>
           (\<forall>i<nrows ps.
              res ! i =
                fadd (fadd (Fin (group_mean df m (product_name ps ! i) *
                                 group_mean df mc (product_name ps ! i)))
                        (fdiv (Fin (group_mean df l (product_name ps ! i) *
                                    group_mean df lc (product_name ps ! i)))
                           (Fin (group_mean df q (product_name ps ! i)))))
                  (fdiv (Fin (group_mean df e (product_name ps ! i) *
                              group_mean df ec (product_name ps ! i)))
                     (Fin (group_mean df q (product_name ps ! i)))) \<and>
              (group_mean df q (product_name ps ! i) \<noteq> 0 \<longrightarrow>
                 res ! i =
                   Fin (group_mean df m (product_name ps ! i) * group_mean df mc (product_name ps ! i) +
                        group_mean df l (product_name ps ! i) * group_mean df lc (product_name ps ! i) /
                          group_mean df q (product_name ps ! i) +
                        group_mean df e (product_name ps ! i) * group_mean df ec (product_name ps ! i) /
                          group_mean df q (product_name ps ! i))))"
proof (rule product_stats_resource [OF assms])
  fix ps res qty
  assume run: "product_stats df = Some ps" "product_name ps = sort (remdups (product_name df))"
      "getitem ps ''resource'' = Some res" "length res = nrows ps"
    and cell: "\<And>i. i < nrows ps \<Longrightarrow>
       res ! i =
         fadd (fadd (Fin (group_mean df m (product_name ps ! i) *
                          group_mean df mc (product_name ps ! i)))
                 (fdiv (Fin (group_mean df l (product_name ps ! i) *
                             group_mean df lc (product_name ps ! i)))
                    (Fin (group_mean df q (product_name ps ! i)))))
           (fdiv (Fin (group_mean df e (product_name ps ! i) *
                       group_mean df ec (product_name ps ! i)))
              (Fin (group_mean df q (product_name ps ! i))))"
  have fin: "res ! i =
         Fin (group_mean df m (product_name ps ! i) * group_mean df mc (product_name ps ! i) +
              group_mean df l (product_name ps ! i) * group_mean df lc (product_name ps ! i) /
                group_mean df q (product_name ps ! i) +
              group_mean df e (product_name ps ! i) * group_mean df ec (product_name ps ! i) /
                group_mean df q (product_name ps ! i))"
    if "i < nrows ps" "group_mean df q (product_name ps ! i) \<noteq> 0" for i
    by (simp only: cell [OF that(1)] composite_finite [OF that(2)])
  show ?thesis
  proof (intro exI conjI allI impI)
    show "product_stats df = Some ps" "product_name ps = sort (remdups (product_name df))"
      "getitem ps ''resource'' = Some res" "length res = nrows ps"
      by (rule run)+
  qed (rule cell, assumption, rule fin, assumption+)
qed

lemma zero_quantity_not_finite:
  "\<not> is_fin (fadd (fadd (Fin A) (fdiv (Fin B) (Fin 0))) (fdiv (Fin C) (Fin 0)))"
  by (simp add: inf_of_sign_def is_fin_def)

lemma order_table_orders3:
  "order_table orders3 [3, 5, 7] [2, 1, 4] [4, 1, 2] [3, 2, 5] [2, 1, 4] [30, 20, 10]
     [5, 2, 7] [2, 2, 2] [10, 4, 30]"
  by (simp add: order_table_def orders3_def getitem_def nrows_def)

lemma order_table_orders_idle:
  "order_table orders_idle [3] [2] [4] [3] [2] [30] [5] [2] [0]"
  by (simp add: order_table_def orders_idle_def getitem_def nrows_def)

theorem resource_is_composite_of_group_means_witness:
  "\<exists>ps res. product_stats orders3 = Some ps \<and>
     product_name ps = sort (remdups [''Gear'', ''Bolt'', ''Gear'']) \<and>
     getitem ps ''resource'' = Some res \<and> length res = nrows ps"
proof -
  have names: "product_name orders3 = [''Gear'', ''Bolt'', ''Gear'']"
    by (simp add: orders3_def)
  from resource_is_composite_of_group_means [OF order_table_orders3] show ?thesis
    unfolding names by blast
qed

text \<open>
  C4, as the code has it. The aggregator raises no error of its own. Given no orders it
  returns the table with no rows. A product whose mean actual quantity is zero keeps its
  row, and its \<open>resource\<close> is what float division by zero gives: an infinity or NaN, never
  a finite number.
\<close>

theorem aggregation_raises_nothing:
  assumes "order_table df pu ct m mc l lc e ec q"
  shows "\<exists>ps res qty.
           product_stats df = Some ps \<and>
           product_name ps = sort (remdups (product_name df)) \<and>
           getitem ps ''resource'' = Some res \<and> length res = nrows ps \<and>
           getitem ps ''actual_quantity'' = Some qty \<and> length qty = nrows ps \<and>
           (nrows df = 0 \<longrightarrow> nrows ps = 0) \<and>
           (\<forall>i<nrows ps.
              qty ! i = Fin (group_mean df q (product_name ps ! i)) \<and>
              (group_mean df q (product_name ps ! i) = 0 \<longrightarrow> \<not> is_fin (res ! i)))"
proof (rule product_stats_resource [OF assms])
  fix ps res qty
  assume run: "product_stats df = Some ps" "product_name ps = sort (remdups (product_name df))"
      "getitem ps ''resource'' = Some res" "length res = nrows ps"
      "getitem ps ''actual_quantity'' = Some qty" "length qty = nrows ps"
    and qty: "\<And>i. i < nrows ps \<Longrightarrow> qty ! i = Fin (group_mean df q (product_name ps ! i))"
    and cell: "\<And>i. i < nrows ps \<Longrightarrow>
       res ! i =
         fadd (fadd (Fin (group_mean df m (product_name ps ! i) *
                          group_mean df mc (product_name ps ! i)))
                 (fdiv (Fin (group_mean df l (product_name ps ! i) *
                             group_mean df lc (product_name ps ! i)))
                    (Fin (group_mean df q (product_name ps ! i)))))
           (fdiv (Fin (group_mean df e (product_name ps ! i) *
                       group_mean df ec (product_name ps ! i)))
              (Fin (group_mean df q (product_name ps ! i))))"
  have nonfin: "\<not> is_fin (res ! i)"
    if "i < nrows ps" "group_mean df q (product_name ps ! i) = 0" for i
    by (simp only: cell [OF that(1)] that(2) zero_quantity_not_finite not_False_eq_True)
  show ?thesis
  proof (intro exI conjI allI impI)
    show "product_stats df = Some ps" "product_name ps = sort (remdups (product_name df))"
      "getitem ps ''resource'' = Some res" "length res = nrows ps"
      "getitem ps ''actual_quantity'' = Some qty" "length qty = nrows ps"
      by (rule run)+
    show "nrows ps = 0" if "nrows df = 0"
      using that by (simp add: nrows_def run(2))
  qed (rule qty, assumption, rule nonfin, assumption+)
qed

theorem aggregation_raises_nothing_witness:
  "\<exists>ps res qty. product_stats orders_idle = Some ps \<and> product_name ps = [''Bolt''] \<and>
     getitem ps ''resource'' = Some res \<and> getitem ps ''actual_quantity'' = Some qty \<and>
     length res = 1 \<and> qty ! 0 = Fin 0 \<and> \<not> is_fin (res ! 0)"
proof -
  have names: "sort (remdups (product_name orders_idle)) = [''Bolt'']"
    by (simp add: orders_idle_def)
  have mean: "group_mean orders_idle [0] ''Bolt'' = 0"
    by (simp add: group_mean_def avg_def group_values_def orders_idle_def)
  from aggregation_raises_nothing [OF order_table_orders_idle] obtain ps res qty where
    run: "product_stats orders_idle = Some ps" "product_name ps = [''Bolt'']"
      "getitem ps ''resource'' = Some res" "length res = nrows ps"
      "getitem ps ''actual_quantity'' = Some qty"
    and cells: "\<forall>i<nrows ps.
              qty ! i = Fin (group_mean orders_idle [0] (product_name ps ! i)) \<and>
              (group_mean orders_idle [0] (product_name ps ! i) = 0 \<longrightarrow> \<not> is_fin (res ! i))"
    unfolding names by (elim exE conjE) 
  have n: "nrows ps = 1"
    by (simp add: nrows_def run(2))
  from cells n have "qty ! 0 = Fin 0" "\<not> is_fin (res ! 0)"
    by (simp_all add: run(2) mean)
  with run n show ?thesis
    by auto
qed

text \<open>
  The table with no orders is aggregated to the empty table, not to an error; and the
  product of the single idle order is in the result, with \<open>resource = +Inf\<close>.
\<close>

theorem aggregator_raises_no_error_counterexample:
  "product_stats orders_none =
     Some \<lparr>product_name = [],
           columns = [(''profit'', []), (''time'', []), (''material_qty_used'', []),
                      (''material_cost_per_unit'', []), (''labor_hours'', []),
                      (''labor_cost_per_hour'', []), (''energy_kwh'', []),
                      (''energy_cost_per_kwh'', []), (''actual_quantity'', []),
                      (''resource'', [])]\<rparr> \<and>
   product_stats orders_idle =
     Some \<lparr>product_name = [''Bolt''],
           columns = [(''profit'', [Fin 3]), (''time'', [Fin 2]), (''material_qty_used'', [Fin 4]),
                      (''material_cost_per_unit'', [Fin 3]), (''labor_hours'', [Fin 2]),
                      (''labor_cost_per_hour'', [Fin 30]), (''energy_kwh'', [Fin 5]),
                      (''energy_cost_per_kwh'', [Fin 2]), (''actual_quantity'', [Fin 0]),
                      (''resource'', [PInf])]\<rparr>"
  by (simp add: product_stats_def groupby_mean_def orders_none_def orders_idle_def
      series_mean_def group_values_def rename_def frame_defs series_defs)

section \<open>What the allocator returns\<close>

lemma scored_table_columns:
  assumes "lookup h ps = Some src" and "has_metrics src p t r"
  obtains data h' sc tm rs where
    "compute_product_scores ties w_t w_r ps h = Some (data, h')"
    "getitem data ''score'' = Some sc" "getitem data ''time'' = Some tm"
    "getitem data ''resource'' = Some rs"
proof -
  let ?S = "score_series w_t w_r (min_max_norm p) (min_max_norm t) (min_max_norm r)"
  let ?out = "take_rows \<lparr>product_name = product_name src,
                columns = [(''profit'', p), (''time'', t), (''resource'', r), (''score'', ?S)]\<rparr>
                (nargsort_desc ties ?S)"
  show thesis
  proof (rule that)
    show "compute_product_scores ties w_t w_r ps h = Some (?out, h @ [scored_frame w_t w_r src p t r])"
      by (rule compute_product_scores_run [OF assms])
  qed (simp_all add: take_rows_def getitem_def)
qed

text \<open>
  C2, as the code has it. On a well-formed table the scorer and the construction of the
  linear program raise nothing. Whenever \<open>linprog\<close> returns a result that is not a success
  (the problem is infeasible, or the solver reports a failure), the allocator returns the
  failure value, the diagnostic string \<open>"Optimization failed: " + result.message\<close>, and no
  quantities. The allocator catches nothing: when \<open>linprog\<close> raises, the call raises.
\<close>

theorem failed_solve_is_reported:
  assumes "lookup h ps = Some src" and "has_metrics src p t r"
  shows "\<exists>data h' problem.
           compute_product_scores ties w_t w_r ps h = Some (data, h') \<and>
           build_problem data T_max R_max = Some problem \<and>
           (\<forall>result. linprog problem = Some result \<and> \<not> success result \<longrightarrow>
              optimize_production ties linprog w_t w_r T_max R_max ps h =
                Some (Failed (''Optimization failed: '' @ message result), h')) \<and>
           (linprog problem = None \<longrightarrow>
              optimize_production ties linprog w_t w_r T_max R_max ps h = None)"
proof (rule scored_table_columns [OF assms, of ties w_t w_r])
  fix data h' sc tm rs
  assume run: "compute_product_scores ties w_t w_r ps h = Some (data, h')"
    and cols: "getitem data ''score'' = Some sc" "getitem data ''time'' = Some tm"
      "getitem data ''resource'' = Some rs"
  let ?problem = "\<lparr>lp_c = map fneg sc, lp_A_ub = [tm, rs], lp_b_ub = [Fin T_max, Fin R_max],
                   lp_bounds = replicate (nrows data) (0, None)\<rparr>"
  have build: "build_problem data T_max R_max = Some ?problem"
    by (simp add: build_problem_def cols)
  have failed: "\<forall>result. linprog ?problem = Some result \<and> \<not> success result \<longrightarrow>
      optimize_production ties linprog w_t w_r T_max R_max ps h =
        Some (Failed (''Optimization failed: '' @ message result), h')"
    by (simp add: optimize_production_def run build)
  have raised: "linprog ?problem = None \<longrightarrow>
      optimize_production ties linprog w_t w_r T_max R_max ps h = None"
    by (simp add: optimize_production_def run build)
  show ?thesis
    by (intro exI [of _ data] exI [of _ h'] exI [of _ ?problem] conjI run build failed raised)
qed







theorem failed_solve_is_reported_witness:
  "\<exists>h'. optimize_production ties_in_order (linprog_reports report_infeasible) 1 1 (- 10) 10 0 [stats3] =
     Some (Failed ''Optimization failed: The problem is infeasible.'', h')"
proof -
  have h1: "lookup [stats3] 0 = Some stats3"
    by (simp add: lookup_def)
  from failed_solve_is_reported [OF h1 stats3_metrics, of ties_in_order 1 1 "- 10" 10
      "linprog_reports report_infeasible"]
  show ?thesis
    by (auto simp: linprog_reports_def report_infeasible_def)
qed





text \<open>
  Two products with the same profit have the score NaN, the objective handed to \<open>linprog\<close>
  is not finite, \<open>linprog\<close> raises, and so does the allocator: it returns no failure value.
\<close>

theorem solver_exception_not_caught_counterexample:
  "optimize_production ties_in_order (linprog_validating report_infeasible) 1 1 10 10 0 [stats_same_profit]
     = None"
  by (simp add: optimize_production_def build_problem_def compute_product_scores_def
      stats_same_profit_def linprog_validating_def frame_defs series_defs sort_defs is_fin_def)

end
